theory Spec2Isabelle
  imports Main "HOL-Library.Sublist"
begin

section \<open>String primitives of the host language\<close>

text \<open>
  The source is TypeScript. Its strings are modelled as \<open>string\<close> (character lists),
  and the few methods of \<open>String.prototype\<close> and \<open>Array.prototype\<close> that the
  previewed code calls are written out here: \<open>split\<close> with a one-character separator,
  \<open>join\<close>, \<open>pop\<close>, \<open>push\<close>, \<open>startsWith\<close>, \<open>slice(-1)\<close> and \<open>toLowerCase\<close>.
  Lower-casing is written for the ASCII letters: the only use compares the result with
  ASCII extension names none of which holds a letter that a non-ASCII character lowers to.
  \<open>showNat\<close> writes a natural number in decimal digits.
\<close>

fun split :: "char \<Rightarrow> string \<Rightarrow> string list" where
  "split sep [] = [[]]"
| "split sep (c # cs) =
     (if c = sep then [] # split sep cs
      else (case split sep cs of
              [] \<Rightarrow> [[c]]
            | p # ps \<Rightarrow> (c # p) # ps))"

fun join :: "string \<Rightarrow> string list \<Rightarrow> string" where
  "join sep [] = []"
| "join sep [p] = p"
| "join sep (p # q # ps) = p @ sep @ join sep (q # ps)"

definition pop :: "'a list \<Rightarrow> 'a list" where
  \<comment> \<open>\<open>Array.prototype.pop\<close>, for the array it leaves: on an empty array it does nothing\<close>
  "pop xs = butlast xs"

definition push :: "'a list \<Rightarrow> 'a \<Rightarrow> 'a list" where
  "push xs x = xs @ [x]"

definition popped :: "'a list \<Rightarrow> 'a option" where
  \<comment> \<open>the value \<open>pop\<close> returns: \<open>undefined\<close> on an empty array\<close>
  "popped xs = (if xs = [] then None else Some (last xs))"

definition startsWith :: "string \<Rightarrow> string \<Rightarrow> bool" where
  "startsWith s p = (take (length p) s = p)"

definition lastChar :: "string \<Rightarrow> string" where
  \<comment> \<open>\<open>s.slice(-1)\<close>: the last character, or the empty string\<close>
  "lastChar s = (if s = [] then [] else [last s])"

definition lowerChar :: "char \<Rightarrow> char" where
  "lowerChar c =
     (let n = (of_char c :: nat) in if 65 \<le> n \<and> n \<le> 90 then char_of (n + 32) else c)"

definition toLowerCase :: "string \<Rightarrow> string" where
  "toLowerCase s = map lowerChar s"

definition digit :: "nat \<Rightarrow> char" where
  "digit n = ''0123456789'' ! n"

fun showNat :: "nat \<Rightarrow> string" where
  "showNat n = (if n < 10 then [digit n] else showNat (n div 10) @ [digit (n mod 10)])"

declare showNat.simps [simp del]

section \<open>FileTable and PathResolver\<close>

text \<open>
  \<open>FileSystemState = Record<string, string>\<close>: the in-memory table from path to
  content, held as a plain object. The map below is the object's own keys.
\<close>

type_synonym FileSystemState = "string \<rightharpoonup> string"

text \<open>
  Reading \<open>fileSystem[key]\<close> on a plain object finds an own key first and then the
  members every object inherits from \<open>Object.prototype\<close>: its methods, which are
  functions, and \<open>__proto__\<close>, which reads as the prototype object itself. Only a key
  that is neither gives \<open>undefined\<close>, here \<open>None\<close>. No inherited name ends in
  \<open>index.html\<close>, so the two places that read the root document entry read the own keys.
\<close>

datatype member = Own string | InheritedFunction | PrototypeObject

definition objectPrototypeNames :: "string list" where
  "objectPrototypeNames =
     [''constructor'', ''hasOwnProperty'', ''isPrototypeOf'', ''propertyIsEnumerable'',
      ''toLocaleString'', ''toString'', ''valueOf'', ''__defineGetter__'',
      ''__defineSetter__'', ''__lookupGetter__'', ''__lookupSetter__'']"

definition getMember :: "FileSystemState \<Rightarrow> string \<Rightarrow> member option" where
  "getMember fs key =
     (case fs key of
        Some v \<Rightarrow> Some (Own v)
      | None \<Rightarrow>
          if key = ''__proto__'' then Some PrototypeObject
          else if key \<in> set objectPrototypeNames then Some InheritedFunction
          else None)"

text \<open>The exceptions of the platform that the modelled code can meet.\<close>

datatype error = TypeError | RangeError | SyntaxError | DataCloneError

text \<open>The loop of \<open>resolvePath\<close> over the segments of the relative reference.\<close>

fun resolveParts :: "string list \<Rightarrow> string list \<Rightarrow> string list" where
  "resolveParts stack [] = stack"
| "resolveParts stack (part # parts) =
     (if part = ''.'' then resolveParts stack parts
      else if part = ''..'' then resolveParts (pop stack) parts
      else resolveParts (push stack part) parts)"

definition resolvePath :: "string \<Rightarrow> string \<Rightarrow> string" where
  "resolvePath base relative =
     (let stack = split CHR ''/'' base;
          stack = (if lastChar base \<noteq> ''/'' then pop stack else stack);
          parts = split CHR ''/'' relative
      in join ''/'' (resolveParts stack parts))"

definition getMimeType :: "string \<Rightarrow> string" where
  "getMimeType path =
     (let extension = map_option toLowerCase (popped (split CHR ''.'' path)) in
      if extension = Some ''html'' then ''text/html''
      else if extension = Some ''css'' then ''text/css''
      else if extension = Some ''js'' then ''application/javascript''
      else if extension = Some ''json'' then ''application/json''
      else if extension = Some ''png'' then ''image/png''
      else if extension = Some ''jpg'' \<or> extension = Some ''jpeg'' then ''image/jpeg''
      else if extension = Some ''gif'' then ''image/gif''
      else if extension = Some ''svg'' then ''image/svg+xml''
      else if extension = Some ''md'' then ''text/markdown''
      else ''application/octet-stream'')"

section \<open>NetworkBridge\<close>

text \<open>
  The two message shapes of the bridge. A request is
  \<open>{ type: 'FETCH_REQUEST', path, requestId }\<close>; a response is
  \<open>{ type: 'FETCH_RESPONSE', requestId, content, status, headers }\<close>. The handlers read
  \<open>type\<close> as a plain string, so it stays one here; in the request record the fields
  \<open>type\<close> and \<open>requestId\<close> are named \<open>rtype\<close> and \<open>rid\<close>. The content of a response
  is what arrives after the structured clone of the message: a string, an empty object
  (the clone of \<open>Object.prototype\<close>, which has no enumerable key), or nothing. The
  status is an integer, as the protocol has it. A \<open>MessageEvent\<close> carries the window it
  came from and the data; windows are an abstract type \<open>'w\<close> compared by identity.
\<close>

record request =
  rtype :: string
  path :: string
  rid :: string

datatype payload = Str string | EmptyObject | Absent

record response =
  type :: string
  requestId :: string
  content :: payload
  status :: int
  headers :: "(string \<times> string) list"

record ('w, 'd) MessageEvent =
  source :: 'w
  data :: 'd

subsection \<open>Host half: \<open>handleIframeMessage\<close>\<close>

text \<open>
  The responder reads \<open>iframeRef.current\<close> (absent before the frame is mounted) and the
  current \<open>fileSystem\<close>; what it does is post messages to the frame's window, collected
  in \<open>posted\<close> in the order sent. \<open>postMessage\<close> clones the message: a function cannot
  be cloned, so a content that is an inherited method makes the call throw, nothing is
  posted, and the handler ends with the exception, recorded in \<open>uncaught\<close>.
\<close>

record 'w host =
  iframe :: "'w option"
  fileSystem :: FileSystemState
  posted :: "response list"
  uncaught :: "error list"

definition handleIframeMessage :: "'w host \<Rightarrow> ('w, request) MessageEvent \<Rightarrow> 'w host" where
  "handleIframeMessage h event =
     (case iframe h of
        None \<Rightarrow> h
      | Some contentWindow \<Rightarrow>
          if source event \<noteq> contentWindow then h
          else if rtype (data event) = ''FETCH_REQUEST'' then
            (case getMember (fileSystem h) (path (data event)) of
               Some (Own c) \<Rightarrow>
                 h\<lparr>posted := posted h @
                     [\<lparr>type = ''FETCH_RESPONSE'', requestId = rid (data event),
                       content = Str c, status = 200,
                       headers = [(''Content-Type'', getMimeType (path (data event)))]\<rparr>]\<rparr>
             | Some PrototypeObject \<Rightarrow>
                 h\<lparr>posted := posted h @
                     [\<lparr>type = ''FETCH_RESPONSE'', requestId = rid (data event),
                       content = EmptyObject, status = 200,
                       headers = [(''Content-Type'', getMimeType (path (data event)))]\<rparr>]\<rparr>
             | Some InheritedFunction \<Rightarrow> h\<lparr>uncaught := uncaught h @ [DataCloneError]\<rparr>
             | None \<Rightarrow>
                 h\<lparr>posted := posted h @
                     [\<lparr>type = ''FETCH_RESPONSE'', requestId = rid (data event),
                       content = Str (''File not found: '' @ path (data event)),
                       status = 404,
                       headers = [(''Content-Type'', ''text/plain'')]\<rparr>]\<rparr>)
          else h)"

subsection \<open>Shim half: the fetch override injected into the page\<close>

text \<open>
  Two things the shim asks of the browser can throw, and both are the browser's to
  decide, so they are parameters. \<open>pathname url\<close> is
  \<open>new URL(url, window.location.href).pathname\<close>, \<open>None\<close> when the constructor throws
  (as it does for a reference without a scheme when the location cannot serve as a
  base, which is the case of \<open>about:srcdoc\<close>). \<open>validHeaders\<close> says whether the header
  names and values of a response pass the checks of \<open>new Response\<close>.
\<close>

record frame =
  pathname :: "string \<Rightarrow> string option"
  validHeaders :: "(string \<times> string) list \<Rightarrow> bool"

text \<open>
  \<open>new Response(content, { status, headers })\<close> throws a \<open>RangeError\<close> for a status
  outside 200 to 599, a \<open>TypeError\<close> for headers it does not accept, and a \<open>TypeError\<close>
  when a body is given with a status that allows none (101, 103, 204, 205, 304).
\<close>

definition responseError ::
  "frame \<Rightarrow> payload \<Rightarrow> int \<Rightarrow> (string \<times> string) list \<Rightarrow> error option" where
  "responseError F c st hs =
     (if st < 200 \<or> 599 < st then Some RangeError
      else if \<not> validHeaders F hs then Some TypeError
      else if c \<noteq> Absent \<and> st \<in> set [101, 103, 204, 205, 304] then Some TypeError
      else None)"

text \<open>
  The shim keeps \<open>pendingRequests\<close>, a map from request id to the \<open>{resolve, reject}\<close>
  pair of the promise it returned. Promises are numbered in the order the shim creates
  them. \<open>settled\<close> records, in order, which promise was settled and how; a promise that
  is settled stays as it is, so a later call of its \<open>resolve\<close> or \<open>reject\<close> changes
  nothing (\<open>settle\<close>). \<open>called\<close> lists the promises whose pair the message handler has
  called, \<open>outbox\<close> the requests posted to the parent window, \<open>native\<close> the calls handed
  to the original \<open>fetch\<close>, and \<open>thrown\<close> the exceptions the message handler ended with.
  A rejection carries either the error the shim builds,
  \<open>new Error(`Fetch failed with status: ${status}`)\<close>, kept as the status it names, or
  the exception thrown inside the promise's executor.
\<close>

datatype reason = FetchFailed int | Thrown error

datatype settlement =
  Resolved int "(string \<times> string) list" payload
| Rejected reason

record 'w shim =
  parent :: 'w
  pendingRequests :: "string \<rightharpoonup> nat"
  promises :: nat
  settled :: "(nat \<times> settlement) list"
  called :: "nat list"
  outbox :: "request list"
  native :: "string list"
  thrown :: "error list"

definition settle :: "nat \<Rightarrow> settlement \<Rightarrow> 'w shim \<Rightarrow> 'w shim" where
  "settle k outcome s =
     (if k \<in> set (map fst (settled s)) then s
      else s\<lparr>settled := settled s @ [(k, outcome)]\<rparr>)"

definition shimOnMessage :: "frame \<Rightarrow> 'w shim \<Rightarrow> ('w, response) MessageEvent \<Rightarrow> 'w shim" where
  "shimOnMessage F s event =
     (if source event \<noteq> parent s then s
      else if type (data event) = ''FETCH_RESPONSE'' then
        (case pendingRequests s (requestId (data event)) of
           None \<Rightarrow> s
         | Some k \<Rightarrow>
             (let s = s\<lparr>pendingRequests := (pendingRequests s)(requestId (data event) := None)\<rparr>
              in if 200 \<le> status (data event) \<and> status (data event) < 300 then
                   (case responseError F (content (data event)) (status (data event))
                           (headers (data event)) of
                      Some e \<Rightarrow> s\<lparr>thrown := thrown s @ [e]\<rparr>
                    | None \<Rightarrow>
                        settle k (Resolved (status (data event)) (headers (data event))
                                    (content (data event)))
                          (s\<lparr>called := called s @ [k]\<rparr>))
                 else settle k (Rejected (FetchFailed (status (data event))))
                        (s\<lparr>called := called s @ [k]\<rparr>)))
      else s)"

text \<open>
  \<open>window.fetch\<close> as overridden. The request id (\<open>req_<time>_<random>\<close>) comes from the
  platform, so it is an argument: \<open>newId\<close> is the id generated for this call. Inside the
  promise's executor the entry is recorded first and the target resolved second: when
  the resolution throws, the promise is rejected with that exception, nothing is posted
  and the entry stays.
\<close>

definition shimFetch :: "frame \<Rightarrow> string \<Rightarrow> string \<Rightarrow> 'w shim \<Rightarrow> 'w shim" where
  "shimFetch F newId url s =
     (if startsWith url ''http'' \<or> startsWith url ''//'' \<or> startsWith url ''data:''
      then s\<lparr>native := native s @ [url]\<rparr>
      else
        (let k = promises s;
             s = s\<lparr>promises := Suc k, pendingRequests := (pendingRequests s)(newId \<mapsto> k)\<rparr>
         in case pathname F url of
              None \<Rightarrow> settle k (Rejected (Thrown TypeError)) s
            | Some absoluteUrl \<Rightarrow>
                s\<lparr>outbox := outbox s @
                    [\<lparr>rtype = ''FETCH_REQUEST'', path = absoluteUrl, rid = newId\<rparr>]\<rparr>))"

definition newShim :: "'w \<Rightarrow> 'w shim" where
  "newShim p = \<lparr>parent = p, pendingRequests = Map.empty, promises = 0, settled = [],
                called = [], outbox = [], native = [], thrown = []\<rparr>"

text \<open>What can happen to a running shim: the page calls \<open>fetch\<close>, or a message arrives.\<close>

datatype 'w shimEvent =
  Fetch string string
| Message "('w, response) MessageEvent"

fun shimStep :: "frame \<Rightarrow> 'w shim \<Rightarrow> 'w shimEvent \<Rightarrow> 'w shim" where
  "shimStep F s (Fetch newId url) = shimFetch F newId url s"
| "shimStep F s (Message event) = shimOnMessage F s event"

definition shimRun :: "frame \<Rightarrow> 'w shim \<Rightarrow> 'w shimEvent list \<Rightarrow> 'w shim" where
  "shimRun F s events = foldl (shimStep F) s events"

text \<open>The invariant of the shim's bookkeeping that bounds settlements.\<close>

definition shimInv :: "'w shim \<Rightarrow> bool" where
  "shimInv s \<longleftrightarrow>
     distinct (map fst (settled s))
     \<and> distinct (called s)
     \<and> (\<forall>k \<in> set (called s). k < promises s)
     \<and> (\<forall>k \<in> ran (pendingRequests s). k < promises s \<and> k \<notin> set (called s))
     \<and> inj_on (pendingRequests s) (dom (pendingRequests s))"

text \<open>
  A frame given as a finite table from references to the paths they resolve to: a
  reference outside the table is one for which \<open>new URL\<close> throws. All headers pass.
\<close>

definition urlTable :: "(string \<times> string) list \<Rightarrow> frame" where
  "urlTable t = \<lparr>pathname = map_of t, validHeaders = (\<lambda>hs. True)\<rparr>"

section \<open>Documents and the browser platform\<close>

text \<open>
  The builder and the overlay sync work on a parsed document. An element has a tag name,
  its attributes in order, its inline style (the declaration block behind \<open>el.style\<close>;
  \<open>None\<close> when the element has no \<open>style\<close> attribute) and its children. A document is
  its root element: for a text parsed as \<open>text/html\<close> this is the \<open>html\<close> element with
  a \<open>head\<close> and a \<open>body\<close> child, built by \<open>htmlDocument\<close>.
\<close>

datatype node =
  Element string "(string \<times> string) list" "(string \<times> string) list option" "node list"
| Text string

definition htmlDocument :: "node list \<Rightarrow> node list \<Rightarrow> node" where
  "htmlDocument h b =
     Element ''html'' [] None [Element ''head'' [] None h, Element ''body'' [] None b]"

datatype blob = Blob string string | InheritedBlob string string

text \<open>
  Parsing, serialisation, selectors and the naming of object URLs are the browser's, not
  the repository's, so they are parameters of the model: \<open>parseFromString\<close> is
  \<open>new DOMParser().parseFromString(s, 'text/html')\<close>; \<open>parseFragment tag s\<close> is the
  parser behind the \<open>innerHTML\<close> setter of an element with that tag; \<open>parseSelector\<close>
  reads a selector text (\<open>None\<close> when \<open>querySelector\<close> throws a \<open>SyntaxError\<close>);
  \<open>innerHTML\<close> is the getter; \<open>serializeToString\<close> is
  \<open>new XMLSerializer().serializeToString(doc)\<close> (\<open>None\<close> when it throws); and
  \<open>objectURL n\<close> is the URL that \<open>URL.createObjectURL\<close> returns for the \<open>n\<close>-th object
  registered.
\<close>

record platform =
  parseFromString :: "string \<Rightarrow> node"
  parseFragment :: "string \<Rightarrow> string \<Rightarrow> node list"
  parseSelector :: "string \<Rightarrow> (node \<Rightarrow> bool) option"
  innerHTML :: "node list \<Rightarrow> string"
  serializeToString :: "node \<Rightarrow> string option"
  objectURL :: "nat \<Rightarrow> string"

definition hasAttribute :: "(string \<times> string) list \<Rightarrow> string \<Rightarrow> bool" where
  "hasAttribute as name = (map_of as name \<noteq> None)"

definition getAttribute :: "(string \<times> string) list \<Rightarrow> string \<Rightarrow> string option" where
  "getAttribute as name = map_of as name"

fun setAttribute :: "(string \<times> string) list \<Rightarrow> string \<Rightarrow> string \<Rightarrow> (string \<times> string) list" where
  "setAttribute [] name v = [(name, v)]"
| "setAttribute ((m, w) # as) name v =
     (if m = name then (name, v) # as else (m, w) # setAttribute as name v)"



text \<open>
  \<open>document.body\<close>: the first \<open>body\<close> or \<open>frameset\<close> child of the \<open>html\<close> root;
  \<open>null\<close>, here \<open>None\<close>, when there is none.
\<close>

fun isTag :: "string \<Rightarrow> node \<Rightarrow> bool" where
  "isTag name (Text t) = False"
| "isTag name (Element tag as st cs) = (tag = name)"

fun childNodes :: "node \<Rightarrow> node list" where
  "childNodes (Text t) = []"
| "childNodes (Element tag as st cs) = cs"

definition bodyOf :: "node \<Rightarrow> node option" where
  "bodyOf doc =
     (if isTag ''html'' doc
      then find (\<lambda>n. isTag ''body'' n \<or> isTag ''frameset'' n) (childNodes doc)
      else None)"

text \<open>
  \<open>querySelector\<close> over the document and a mutation of the element found:
  \<open>editNode sel f\<close> applies \<open>f\<close> to the first element in document order, the root
  included, that satisfies \<open>sel\<close>, and is \<open>None\<close> when \<open>querySelector\<close> returns \<open>null\<close>.
\<close>

fun editNode :: "(node \<Rightarrow> bool) \<Rightarrow> (node \<Rightarrow> node) \<Rightarrow> node \<Rightarrow> node option"
  and editNodes :: "(node \<Rightarrow> bool) \<Rightarrow> (node \<Rightarrow> node) \<Rightarrow> node list \<Rightarrow> node list option" where
  "editNode sel f (Text t) = None"
| "editNode sel f (Element tag as st cs) =
     (if sel (Element tag as st cs) then Some (f (Element tag as st cs))
      else map_option (Element tag as st) (editNodes sel f cs))"
| "editNodes sel f [] = None"
| "editNodes sel f (n # ns) =
     (case editNode sel f n of
        Some n' \<Rightarrow> Some (n' # ns)
      | None \<Rightarrow> map_option ((#) n) (editNodes sel f ns))"

section \<open>SandboxDocumentBuilder: \<open>generatePreview\<close>\<close>

definition fetchOverrideScript :: string where
  \<open>fetchOverrideScript =
        ''(function() {''
      @ ''    const originalFetch = window.fetch;''
      @ ''    const pendingRequests = new Map();''
      @ ''    window.addEventListener('message', (event) => {''
      @ ''        if (event.source !== window.parent) return;''
      @ ''        const { type, requestId, content, status, headers } = event.data;''
      @ ''        if (type === 'FETCH_RESPONSE' && pendingRequests.has(requestId)) {''
      @ ''            const { resolve, reject } = pendingRequests.get(requestId);''
      @ ''            pendingRequests.delete(requestId);''
      @ ''            if (status >= 200 && status < 300) {''
      @ ''                const response = new Response(content, { status, headers });''
      @ ''                resolve(response);''
      @ ''            } else {''
      @ ''                reject(new Error(`Fetch failed with status: ${status}`));''
      @ ''            }''
      @ ''        }''
      @ ''    });''
      @ ''    window.fetch = function(input, init) {''
      @ ''        const url = (input instanceof Request) ? input.url : input.toString();''
      @ ''        if (url.startsWith('http') || url.startsWith('//') || url.startsWith('data:')) {''
      @ ''            return originalFetch.apply(this, arguments);''
      @ ''        }''
      @ ''        return new Promise((resolve, reject) => {''
      @ ''            const requestId = `req_${Date.now()}_${Math.random()}`;''
      @ ''            pendingRequests.set(requestId, { resolve, reject });''
      @ ''            const absoluteUrl = new URL(url, window.location.href).pathname;''
      @ ''            window.parent.postMessage({''
      @ ''                type: 'FETCH_REQUEST',''
      @ ''                path: absoluteUrl,''
      @ ''                requestId: requestId''
      @ ''            }, '*');''
      @ ''        });''
      @ ''    };''
      @ ''})();''\<close>

text \<open>
  The state the builder acts on: the document handed to the frame (\<open>srcDoc\<close>), the
  registry of object URLs that are live (\<open>URL.createObjectURL\<close> adds to it; only
  \<open>URL.revokeObjectURL\<close> would remove from it), and the console.
\<close>

record preview =
  srcDoc :: string
  objectURLs :: "(string \<times> blob) list"
  console :: "string list"

fun matchesAsset :: "node \<Rightarrow> bool" where
  "matchesAsset (Text t) = False"
| "matchesAsset (Element tag as st cs) =
     (tag = ''link'' \<and> hasAttribute as ''href''
      \<or> tag = ''script'' \<and> hasAttribute as ''src''
      \<or> tag = ''img'' \<and> hasAttribute as ''src''
      \<or> tag = ''source'' \<and> hasAttribute as ''srcset'')"

text \<open>
  The body of the loop over the asset-bearing elements, on one element's attributes.
  The asset is read from the table as any key is, so a resolved path that is the name
  of an inherited member finds that member, which is truthy: the blob is then built from
  its text form (\<open>InheritedBlob\<close>, with the name of the member).
\<close>

definition rewriteAsset ::
  "platform \<Rightarrow> string \<Rightarrow> FileSystemState \<Rightarrow> (string \<times> string) list \<Rightarrow> preview
     \<Rightarrow> (string \<times> string) list \<times> preview" where
  "rewriteAsset P indexPath fs as pv =
     (let srcAttr = (if hasAttribute as ''href'' then ''href''
                     else if hasAttribute as ''src'' then ''src'' else ''srcset'')
      in case getAttribute as srcAttr of
           None \<Rightarrow> (as, pv)
         | Some originalPath \<Rightarrow>
             if originalPath = [] \<or> startsWith originalPath ''http''
                \<or> startsWith originalPath ''data:''
             then (as, pv)
             else
               (let assetPath = (if startsWith originalPath ''/'' then originalPath
                                 else resolvePath indexPath originalPath);
                    blobUrl = objectURL P (length (objectURLs pv));
                    missing = (as, pv\<lparr>console := console pv @
                                 [''Asset not found in file system: '' @ assetPath]\<rparr>)
                in case getMember fs assetPath of
                     None \<Rightarrow> missing
                   | Some (Own []) \<Rightarrow> missing
                   | Some (Own (c # cs)) \<Rightarrow>
                       (setAttribute as srcAttr blobUrl,
                        pv\<lparr>objectURLs := objectURLs pv @
                             [(blobUrl, Blob (c # cs) (getMimeType assetPath))]\<rparr>)
                   | Some InheritedFunction \<Rightarrow>
                       (setAttribute as srcAttr blobUrl,
                        pv\<lparr>objectURLs := objectURLs pv @
                             [(blobUrl, InheritedBlob assetPath (getMimeType assetPath))]\<rparr>)
                   | Some PrototypeObject \<Rightarrow>
                       (setAttribute as srcAttr blobUrl,
                        pv\<lparr>objectURLs := objectURLs pv @
                             [(blobUrl, InheritedBlob assetPath (getMimeType assetPath))]\<rparr>)))"

text \<open>
  The loop runs over the matching elements in document order and changes only their own
  attributes, so it is a traversal of the tree that threads the state.
\<close>

fun rewriteNode :: "platform \<Rightarrow> string \<Rightarrow> FileSystemState \<Rightarrow> node \<Rightarrow> preview \<Rightarrow> node \<times> preview"
  and rewriteNodes ::
    "platform \<Rightarrow> string \<Rightarrow> FileSystemState \<Rightarrow> node list \<Rightarrow> preview \<Rightarrow> node list \<times> preview" where
  "rewriteNode P indexPath fs (Text t) pv = (Text t, pv)"
| "rewriteNode P indexPath fs (Element tag as st cs) pv =
     (case (if matchesAsset (Element tag as st cs) then rewriteAsset P indexPath fs as pv
            else (as, pv)) of
        (as', pv1) \<Rightarrow>
          (case rewriteNodes P indexPath fs cs pv1 of
             (cs', pv2) \<Rightarrow> (Element tag as' st cs', pv2)))"
| "rewriteNodes P indexPath fs [] pv = ([], pv)"
| "rewriteNodes P indexPath fs (n # ns) pv =
     (case rewriteNode P indexPath fs n pv of
        (n', pv1) \<Rightarrow>
          (case rewriteNodes P indexPath fs ns pv1 of
             (ns', pv2) \<Rightarrow> (n' # ns', pv2)))"

text \<open>
  \<open>doc.head.insertBefore(scriptEl, doc.head.firstChild)\<close>: the script becomes the first
  child of the head, which is the first \<open>head\<close> child of the \<open>html\<close> root. Without a
  head, \<open>doc.head\<close> is \<open>null\<close> and the statement throws.
\<close>

fun prependToHead :: "node \<Rightarrow> node list \<Rightarrow> node list option" where
  "prependToHead scriptEl [] = None"
| "prependToHead scriptEl (Text t # ns) = map_option ((#) (Text t)) (prependToHead scriptEl ns)"
| "prependToHead scriptEl (Element tag as st cs # ns) =
     (if tag = ''head'' then Some (Element tag as st (scriptEl # cs) # ns)
      else map_option ((#) (Element tag as st cs)) (prependToHead scriptEl ns))"

fun injectScript :: "node \<Rightarrow> node \<Rightarrow> node option" where
  "injectScript scriptEl (Text t) = None"
| "injectScript scriptEl (Element tag as st cs) =
     (if tag = ''html'' then map_option (Element tag as st) (prependToHead scriptEl cs)
      else None)"

text \<open>
  The builder. Everything after the lookup of the root document runs inside
  \<open>try\<close>; an exception there ends in the \<open>catch\<close> branch, which logs it and renders the
  error placeholder.
\<close>

definition generatePreview ::
  "platform \<Rightarrow> string option \<Rightarrow> FileSystemState \<Rightarrow> preview \<Rightarrow> preview" where
  "generatePreview P previewRoot fs pv =
     (case previewRoot of
        None \<Rightarrow> pv\<lparr>srcDoc := ''<html><body>No preview root selected.</body></html>''\<rparr>
      | Some root \<Rightarrow>
          if root = [] then
            pv\<lparr>srcDoc := ''<html><body>No preview root selected.</body></html>''\<rparr>
          else
            (let indexPath = root @ ''index.html'' in
             case fs indexPath of
               None \<Rightarrow>
                 pv\<lparr>srcDoc := ''<html><body>No index.html found in preview root: '' @ root
                   @ ''. Select a folder with an index.html file to preview, or create an index.html.</body></html>''\<rparr>
             | Some indexContent \<Rightarrow>
                 (let doc = parseFromString P indexContent;
                      scriptEl = Element ''script'' [] None [Text fetchOverrideScript];
                      failed = (\<lambda>pv. pv\<lparr>srcDoc := ''<html><body>Error generating preview. Check console for details.</body></html>'',
                                        console := console pv @ [''Error generating preview:'']\<rparr>)
                  in case injectScript scriptEl doc of
                       None \<Rightarrow> failed pv
                     | Some doc \<Rightarrow>
                         (case rewriteNode P indexPath fs doc pv of
                            (doc', pv') \<Rightarrow>
                              (case serializeToString P doc' of
                                 Some finalHtml \<Rightarrow> pv'\<lparr>srcDoc := finalHtml\<rparr>
                               | None \<Rightarrow> failed pv')))))"

text \<open>A run of regenerations, each from the preview root and file table of its moment.\<close>

definition regenerate ::
  "platform \<Rightarrow> preview \<Rightarrow> (string option \<times> FileSystemState) list \<Rightarrow> preview" where
  "regenerate P pv gens = foldl (\<lambda>pv (root, fs). generatePreview P root fs pv) pv gens"

section \<open>EditableOverlaySync\<close>

text \<open>
  \<open>`${previewRoot}index.html`\<close>: a template literal renders \<open>null\<close> as the text
  \<open>null\<close>.
\<close>

definition templ :: "string option \<Rightarrow> string" where
  "templ previewRoot = (case previewRoot of None \<Rightarrow> ''null'' | Some root \<Rightarrow> root)"

definition quoted :: "string \<Rightarrow> string" where
  "quoted s = [CHR 0x22] @ s @ [CHR 0x22]"

text \<open>
  The selector \<open>[data-editable-id="<id>"]\<close>. The identifier is put between the quotes
  as it is. When it holds no double quote, backslash, line break or null character, the
  text between the quotes is a string that stands for itself and the selector matches
  the elements whose attribute equals the identifier (\<open>hasEditableId\<close>). For any other
  identifier the selector text means whatever the browser reads in it, or is rejected.
\<close>

fun hasEditableId :: "string \<Rightarrow> node \<Rightarrow> bool" where
  "hasEditableId i (Text t) = False"
| "hasEditableId i (Element tag as st cs) = (getAttribute as ''data-editable-id'' = Some i)"

definition selectorSafe :: "string \<Rightarrow> bool" where
  "selectorSafe i =
     list_all (\<lambda>c. c \<notin> set [CHR 0x22, CHR 0x5C, CHR 0x0A, CHR 0x0C, CHR 0x0D, CHR 0x00]) i"

definition editableSelector :: "platform \<Rightarrow> string \<Rightarrow> (node \<Rightarrow> bool) option" where
  "editableSelector P i =
     (if selectorSafe i then Some (hasEditableId i)
      else parseSelector P (''[data-editable-id='' @ quoted i @ '']''))"

fun setInnerHTML :: "platform \<Rightarrow> string \<Rightarrow> node \<Rightarrow> node" where
  "setInnerHTML P newContent (Text t) = Text t"
| "setInnerHTML P newContent (Element tag as st cs) =
     Element tag as st (parseFragment P tag newContent)"



text \<open>
  The two updaters handed to \<open>setFileSystem\<close>. Each parses the root document entry,
  locates the element, mutates it and stores \<open>htmlDoc.body.innerHTML\<close>. A selector the
  browser rejects makes \<open>querySelector\<close> throw, and a document left without a body
  makes the read of \<open>htmlDoc.body.innerHTML\<close> throw; the table is then not replaced.
\<close>

definition storeBody ::
  "platform \<Rightarrow> string \<Rightarrow> FileSystemState \<Rightarrow> node \<Rightarrow> error + FileSystemState" where
  "storeBody P htmlPath prev htmlDoc =
     (case bodyOf htmlDoc of
        None \<Rightarrow> Inl TypeError
      | Some b \<Rightarrow> Inr (prev(htmlPath \<mapsto> innerHTML P (childNodes b))))"

definition updateCodeFromDOM ::
  "platform \<Rightarrow> string option \<Rightarrow> string \<Rightarrow> string \<Rightarrow> FileSystemState
     \<Rightarrow> error + FileSystemState" where
  "updateCodeFromDOM P previewRoot i newContent prev =
     (let htmlPath = templ previewRoot @ ''index.html'';
          html = (case prev htmlPath of None \<Rightarrow> [] | Some h \<Rightarrow> h);
          htmlDoc = parseFromString P html
      in case editableSelector P i of
           None \<Rightarrow> Inl SyntaxError
         | Some sel \<Rightarrow>
             (case editNode sel (setInnerHTML P newContent) htmlDoc of
                Some htmlDoc' \<Rightarrow> storeBody P htmlPath prev htmlDoc'
              | None \<Rightarrow> Inr prev))"

text \<open>
  \<open>handleFocusOut\<close>: what the handler reads from the element that lost focus is whether
  it is content-editable, its \<open>data-editable-id\<close> and its rendered inner content.
\<close>

record target =
  isContentEditable :: bool
  editableId :: "string option"
  rendered :: string

definition handleFocusOut ::
  "platform \<Rightarrow> string option \<Rightarrow> target \<Rightarrow> FileSystemState \<Rightarrow> error + FileSystemState" where
  "handleFocusOut P previewRoot t prev =
     (if isContentEditable t then
        (case editableId t of
           None \<Rightarrow> Inr prev
         | Some i \<Rightarrow> if i = [] then Inr prev
                     else updateCodeFromDOM P previewRoot i (rendered t) prev)
      else Inr prev)"










section \<open>A concrete platform for evaluation\<close>

text \<open>
  To run the model on concrete inputs the platform has to be concrete too. The
  serialiser below follows the HTML fragment serialisation of elements, attributes and
  text (void elements have no end tag, the text of \<open>script\<close> and \<open>style\<close> is not escaped,
  the inline style is written as the \<open>style\<close> attribute). The parsers are given as
  finite tables from the texts of a scenario to the trees a browser builds from them;
  a text outside the table is read as plain text in the body. No selector text is
  accepted beyond those \<open>editableSelector\<close> settles itself. Object URLs are numbered.
\<close>

fun escapeText :: "string \<Rightarrow> string" where
  "escapeText [] = []"
| "escapeText (c # cs) =
     (if c = CHR ''&'' then ''&amp;'' else if c = CHR ''<'' then ''&lt;''
      else if c = CHR ''>'' then ''&gt;'' else [c]) @ escapeText cs"

fun escapeAttr :: "string \<Rightarrow> string" where
  "escapeAttr [] = []"
| "escapeAttr (c # cs) =
     (if c = CHR ''&'' then ''&amp;'' else if c = CHR 0x22 then ''&quot;'' else [c])
     @ escapeAttr cs"

definition serializeAttr :: "string \<times> string \<Rightarrow> string" where
  "serializeAttr a = '' '' @ fst a @ ''='' @ quoted (escapeAttr (snd a))"

definition cssText :: "(string \<times> string) list \<Rightarrow> string" where
  "cssText ds = join '' '' (map (\<lambda>d. fst d @ '': '' @ snd d @ '';'') ds)"

definition serializeStyle :: "(string \<times> string) list option \<Rightarrow> string" where
  "serializeStyle st =
     (case st of None \<Rightarrow> [] | Some ds \<Rightarrow> serializeAttr (''style'', cssText ds))"

definition voidElements :: "string list" where
  "voidElements = [''area'', ''base'', ''br'', ''col'', ''embed'', ''hr'', ''img'', ''input'',
                   ''link'', ''meta'', ''source'', ''track'', ''wbr'']"

definition rawTextElements :: "string list" where
  "rawTextElements = [''style'', ''script'', ''xmp'', ''iframe'', ''noembed'', ''noframes'',
                      ''plaintext'']"

fun serializeNode :: "bool \<Rightarrow> node \<Rightarrow> string"
  and serializeNodes :: "bool \<Rightarrow> node list \<Rightarrow> string" where
  "serializeNode raw (Text t) = (if raw then t else escapeText t)"
| "serializeNode raw (Element tag as st cs) =
     ''<'' @ tag @ concat (map serializeAttr as) @ serializeStyle st @ ''>''
     @ (if tag \<in> set voidElements then []
        else serializeNodes (tag \<in> set rawTextElements) cs @ ''</'' @ tag @ ''>'')"
| "serializeNodes raw [] = []"
| "serializeNodes raw (n # ns) = serializeNode raw n @ serializeNodes raw ns"

definition plainText :: "string \<Rightarrow> node list" where
  "plainText s = (if s = [] then [] else [Text s])"

definition samplePlatform ::
  "(string \<times> node) list \<Rightarrow> (string \<times> node list) list \<Rightarrow> platform" where
  "samplePlatform docs frags =
     \<lparr>parseFromString =
        (\<lambda>s. case map_of docs s of Some d \<Rightarrow> d | None \<Rightarrow> htmlDocument [] (plainText s)),
      parseFragment =
        (\<lambda>tag s. case map_of frags s of Some ns \<Rightarrow> ns | None \<Rightarrow> plainText s),
      parseSelector = (\<lambda>s. None),
      innerHTML = serializeNodes False,
      serializeToString = (\<lambda>d. Some (serializeNode False d)),
      objectURL = (\<lambda>n. ''blob:'' @ showNat n)\<rparr>"

section \<open>Scenarios\<close>

text \<open>
  Concrete inputs on which the model is run below: file tables, the documents a browser
  parses from their root entries, and the platform instances that hold those parses.
\<close>

definition emptyPreview :: preview where
  "emptyPreview = \<lparr>srcDoc = [], objectURLs = [], console = []\<rparr>"

text \<open>What one generation adds to the registry of object URLs.\<close>

definition created ::
  "platform \<Rightarrow> string option \<Rightarrow> FileSystemState \<Rightarrow> preview \<Rightarrow> (string \<times> blob) list" where
  "created P root fs pv =
     drop (length (objectURLs pv)) (objectURLs (generatePreview P root fs pv))"

text \<open>
  A host that owns window 1 and holds one file; the frame of a page whose location
  resolves the two references used; and the frame the component mounts, whose location
  is \<open>about:srcdoc\<close>, where no reference without a scheme resolves.
\<close>

definition dataHost :: "nat host" where
  "dataHost = \<lparr>iframe = Some 1, fileSystem = [''/data.json'' \<mapsto> ''{}''], posted = [],
               uncaught = []\<rparr>"

definition requestFor :: "string \<Rightarrow> string \<Rightarrow> (nat, request) MessageEvent" where
  "requestFor p r = \<lparr>source = 1, data = \<lparr>rtype = ''FETCH_REQUEST'', path = p, rid = r\<rparr>\<rparr>"

definition pageFrame :: frame where
  "pageFrame = urlTable [(''data.json'', ''/data.json''), (''nope.txt'', ''/nope.txt'')]"

definition srcdocFrame :: frame where
  "srcdocFrame = urlTable []"

definition responseWith :: "string \<Rightarrow> payload \<Rightarrow> int \<Rightarrow> (nat, response) MessageEvent" where
  "responseWith r c st =
     \<lparr>source = 0,
      data = \<lparr>type = ''FETCH_RESPONSE'', requestId = r, content = c, status = st,
              headers = []\<rparr>\<rparr>"

text \<open>
  A round trip of the bridge: the page calls \<open>fetch\<close> on a fresh shim, every request the
  shim posted is delivered to the host from the frame's window, and every response the
  host posted is delivered to the shim from its parent. \<open>pendingShim\<close> is a shim that has
  posted one request and waits for the answer.
\<close>

definition roundTrip :: "frame \<Rightarrow> nat host \<Rightarrow> string \<Rightarrow> string \<Rightarrow> nat shim" where
  "roundTrip F h newId url =
     (let s = shimFetch F newId url (newShim 0);
          h' = foldl handleIframeMessage h (map (\<lambda>r. \<lparr>source = 1, data = r\<rparr>) (outbox s))
      in foldl (shimOnMessage F) s (map (\<lambda>r. \<lparr>source = 0, data = r\<rparr>) (posted h')))"

definition pendingShim :: "nat shim" where
  "pendingShim = shimFetch pageFrame ''req_1'' ''data.json'' (newShim 0)"

text \<open>A page whose image has a protocol-relative source, and a table with a key of that name.\<close>

definition cdnPage :: string where
  "cdnPage = ''<html><head></head><body><img src='' @ quoted ''//cdn/x.png''
     @ ''></body></html>''"

definition cdnDoc :: node where
  "cdnDoc = htmlDocument [] [Element ''img'' [(''src'', ''//cdn/x.png'')] None []]"

definition cdnFiles :: FileSystemState where
  "cdnFiles = [''/index.html'' \<mapsto> cdnPage, ''//cdn/x.png'' \<mapsto> ''PNG'']"

text \<open>The scenario of the spec: a page with one local image.\<close>

definition imagePage :: string where
  "imagePage = ''<html><body><img src='' @ quoted ''a.png'' @ ''></body></html>''"

definition imageDoc :: node where
  "imageDoc = htmlDocument [] [Element ''img'' [(''src'', ''a.png'')] None []]"

definition imageFiles :: FileSystemState where
  "imageFiles = [''/index.html'' \<mapsto> imagePage, ''/a.png'' \<mapsto> ''PNG'']"

text \<open>A page with a title in its head and one editable paragraph in its body.\<close>

definition titledPage :: string where
  "titledPage = ''<html><head><title>T</title></head><body><p data-editable-id='' @ quoted ''x''
     @ '' contenteditable='' @ quoted ''true'' @ ''>old</p></body></html>''"

definition titledDoc :: node where
  "titledDoc =
     htmlDocument [Element ''title'' [] None [Text ''T'']]
       [Element ''p'' [(''data-editable-id'', ''x''), (''contenteditable'', ''true'')] None
          [Text ''old'']]"






section \<open>Lemmas\<close>

subsection \<open>Decimal digits\<close>

lemma showNat_0: "showNat 0 = ''0''"
  by (simp add: showNat.simps digit_def)

lemma showNat_1: "showNat (Suc 0) = ''1''"
  by (simp add: showNat.simps digit_def)

subsection \<open>What the host answers\<close>

lemma getMember_own: "fs key = Some v \<Longrightarrow> getMember fs key = Some (Own v)"
  by (simp add: getMember_def)

lemma getMember_absent:
  "fs key = None \<Longrightarrow> key \<noteq> ''__proto__'' \<Longrightarrow> key \<notin> set objectPrototypeNames \<Longrightarrow>
   getMember fs key = None"
  by (simp add: getMember_def)

lemma host_answers_own_key:
  "iframe h = Some (source event) \<Longrightarrow> rtype (data event) = ''FETCH_REQUEST'' \<Longrightarrow>
   fileSystem h (path (data event)) = Some c \<Longrightarrow>
   handleIframeMessage h event =
     h\<lparr>posted := posted h @
         [\<lparr>type = ''FETCH_RESPONSE'', requestId = rid (data event), content = Str c,
           status = 200,
           headers = [(''Content-Type'', getMimeType (path (data event)))]\<rparr>]\<rparr>"
  by (simp add: handleIframeMessage_def getMember_own)

lemma host_answers_absent_key:
  "iframe h = Some (source event) \<Longrightarrow> rtype (data event) = ''FETCH_REQUEST'' \<Longrightarrow>
   fileSystem h (path (data event)) = None \<Longrightarrow>
   path (data event) \<noteq> ''__proto__'' \<Longrightarrow> path (data event) \<notin> set objectPrototypeNames \<Longrightarrow>
   handleIframeMessage h event =
     h\<lparr>posted := posted h @
         [\<lparr>type = ''FETCH_RESPONSE'', requestId = rid (data event),
           content = Str (''File not found: '' @ path (data event)), status = 404,
           headers = [(''Content-Type'', ''text/plain'')]\<rparr>]\<rparr>"
  by (simp add: handleIframeMessage_def getMember_absent)

subsection \<open>The shim's bookkeeping\<close>

lemma shimInv_new: "shimInv (newShim p)"
  by (simp add: shimInv_def newShim_def)

lemma shimInv_settle: "shimInv s \<Longrightarrow> shimInv (settle k outcome s)"
  by (auto simp: shimInv_def settle_def)

lemma shimInv_register:
  "shimInv s \<Longrightarrow>
   shimInv (s\<lparr>promises := Suc (promises s),
              pendingRequests := (pendingRequests s)(i \<mapsto> promises s)\<rparr>)"
  unfolding shimInv_def
  by (auto simp: ran_def inj_on_def dom_def split: if_splits)

lemma shimInv_remove:
  "shimInv s \<Longrightarrow> shimInv (s\<lparr>pendingRequests := (pendingRequests s)(r := None)\<rparr>)"
  unfolding shimInv_def
  by (auto simp: ran_def inj_on_def dom_def split: if_splits)

lemma shimInv_call:
  "shimInv s \<Longrightarrow> pendingRequests s r = Some k \<Longrightarrow>
   shimInv (s\<lparr>pendingRequests := (pendingRequests s)(r := None), called := called s @ [k]\<rparr>)"
  unfolding shimInv_def
  by (auto simp: ran_def inj_on_def dom_def split: if_splits)

lemma shimInv_outbox: "shimInv s \<Longrightarrow> shimInv (s\<lparr>outbox := x\<rparr>)"
  by (simp add: shimInv_def)

lemma shimInv_native: "shimInv s \<Longrightarrow> shimInv (s\<lparr>native := x\<rparr>)"
  by (simp add: shimInv_def)

lemma shimInv_thrown: "shimInv s \<Longrightarrow> shimInv (s\<lparr>thrown := x\<rparr>)"
  by (simp add: shimInv_def)

lemma shimInv_fetch: "shimInv s \<Longrightarrow> shimInv (shimFetch F i u s)"
  unfolding shimFetch_def Let_def
  by (auto intro!: shimInv_settle shimInv_outbox shimInv_native shimInv_register
      split: option.splits)

lemma shimInv_message: "shimInv s \<Longrightarrow> shimInv (shimOnMessage F s ev)"
proof (cases "pendingRequests s (requestId (data ev))")
  case None
  then show "shimInv s \<Longrightarrow> shimInv (shimOnMessage F s ev)"
    by (simp add: shimOnMessage_def)
next
  case (Some k)
  assume inv: "shimInv s"
  let ?r = "requestId (data ev)"
  have a: "shimInv (s\<lparr>pendingRequests := (pendingRequests s)(?r := None)\<rparr>)"
    using inv by (rule shimInv_remove)
  have b: "shimInv (s\<lparr>pendingRequests := (pendingRequests s)(?r := None),
                      called := called s @ [k]\<rparr>)"
    using inv Some by (rule shimInv_call)
  show "shimInv (shimOnMessage F s ev)"
    using inv Some a b
    by (auto simp: shimOnMessage_def Let_def intro!: shimInv_settle shimInv_thrown
        split: option.splits)
qed

lemma shimInv_step: "shimInv s \<Longrightarrow> shimInv (shimStep F s e)"
  by (cases e) (simp_all add: shimInv_fetch shimInv_message)

lemma shimInv_run: "shimInv s \<Longrightarrow> shimInv (shimRun F s es)"
  unfolding shimRun_def
  by (induction es arbitrary: s) (simp_all add: shimInv_step)

lemma shimOnMessage_not_pending:
  "pendingRequests s (requestId (data ev)) = None \<Longrightarrow> shimOnMessage F s ev = s"
  by (simp add: shimOnMessage_def)

lemma settle_pendingRequests: "pendingRequests (settle k outcome s) = pendingRequests s"
  by (simp add: settle_def)

lemma shimOnMessage_clears:
  "source ev = parent s \<Longrightarrow> type (data ev) = ''FETCH_RESPONSE'' \<Longrightarrow>
   pendingRequests (shimOnMessage F s ev) (requestId (data ev)) = None"
  by (simp add: shimOnMessage_def Let_def settle_pendingRequests split: option.splits)

lemma shimOnMessage_second_discarded:
  "source ev = parent s \<Longrightarrow> type (data ev) = ''FETCH_RESPONSE'' \<Longrightarrow>
   requestId (data ev') = requestId (data ev) \<Longrightarrow>
   shimOnMessage F (shimOnMessage F s ev) ev' = shimOnMessage F s ev"
  using shimOnMessage_clears [of ev s F]
  by (intro shimOnMessage_not_pending) simp

lemma shimOnMessage_settles:
  "source ev = parent s \<Longrightarrow> type (data ev) = ''FETCH_RESPONSE'' \<Longrightarrow>
   pendingRequests s (requestId (data ev)) = Some k \<Longrightarrow>
   k \<notin> set (map fst (settled s)) \<Longrightarrow>
   \<not> (200 \<le> status (data ev) \<and> status (data ev) < 300)
   \<or> responseError F (content (data ev)) (status (data ev)) (headers (data ev)) = None \<Longrightarrow>
   shimOnMessage F s ev =
     s\<lparr>pendingRequests := (pendingRequests s)(requestId (data ev) := None),
       called := called s @ [k],
       settled := settled s @
         [(k, if 200 \<le> status (data ev) \<and> status (data ev) < 300
              then Resolved (status (data ev)) (headers (data ev)) (content (data ev))
              else Rejected (FetchFailed (status (data ev))))]\<rparr>"
  by (auto simp: shimOnMessage_def Let_def settle_def)

lemma shimOnMessage_throws:
  "source ev = parent s \<Longrightarrow> type (data ev) = ''FETCH_RESPONSE'' \<Longrightarrow>
   pendingRequests s (requestId (data ev)) = Some k \<Longrightarrow>
   200 \<le> status (data ev) \<Longrightarrow> status (data ev) < 300 \<Longrightarrow>
   responseError F (content (data ev)) (status (data ev)) (headers (data ev)) = Some e \<Longrightarrow>
   shimOnMessage F s ev =
     s\<lparr>pendingRequests := (pendingRequests s)(requestId (data ev) := None),
       thrown := thrown s @ [e]\<rparr>"
  by (simp add: shimOnMessage_def Let_def)

subsection \<open>The registry of object URLs only grows\<close>

lemma rewriteAsset_prefix:
  "rewriteAsset P ip fs as pv = (as', pv') \<Longrightarrow> prefix (objectURLs pv) (objectURLs pv')"
  by (auto simp: rewriteAsset_def Let_def
      split: option.splits if_splits list.splits member.splits)

text \<open>References that begin with \<open>http\<close> or \<open>data:\<close> are left as they are.\<close>

lemma rewriteAsset_skips_http_and_data:
  "getAttribute as (if hasAttribute as ''href'' then ''href''
                    else if hasAttribute as ''src'' then ''src'' else ''srcset'') = Some ref \<Longrightarrow>
   startsWith ref ''http'' \<or> startsWith ref ''data:'' \<Longrightarrow>
   rewriteAsset P indexPath fs as pv = (as, pv)"
  by (auto simp: rewriteAsset_def Let_def)

lemma rewriteNode_prefix:
  "rewriteNode P ip fs n pv = (n', pv') \<Longrightarrow> prefix (objectURLs pv) (objectURLs pv')"
  and rewriteNodes_prefix:
  "rewriteNodes P ip fs ns pv = (ns', pv') \<Longrightarrow> prefix (objectURLs pv) (objectURLs pv')"
proof (induction P ip fs n pv and P ip fs ns pv arbitrary: n' pv' and ns' pv'
       rule: rewriteNode_rewriteNodes.induct)
  case (1 P indexPath fs t pv)
  then show ?case by simp
next
  case (2 P indexPath fs tag as st cs pv)
  obtain as1 pv1 where a:
    "(if matchesAsset (Element tag as st cs) then rewriteAsset P indexPath fs as pv
      else (as, pv)) = (as1, pv1)"
    by force
  obtain cs1 pv2 where b: "rewriteNodes P indexPath fs cs pv1 = (cs1, pv2)"
    by force
  from a have "prefix (objectURLs pv) (objectURLs pv1)"
    by (auto split: if_splits dest: rewriteAsset_prefix)
  moreover have "prefix (objectURLs pv1) (objectURLs pv2)"
    using "2.IH" [OF a [symmetric] b] .
  moreover have "pv' = pv2"
    using "2.prems" a b by simp
  ultimately show ?case
    by (auto intro: prefix_order.trans)
next
  case (3 P indexPath fs pv)
  then show ?case by simp
next
  case (4 P indexPath fs n ns pv)
  obtain n1 pv1 where a: "rewriteNode P indexPath fs n pv = (n1, pv1)"
    by force
  obtain ns1 pv2 where b: "rewriteNodes P indexPath fs ns pv1 = (ns1, pv2)"
    by force
  have "prefix (objectURLs pv) (objectURLs pv1)"
    using "4.IH"(1) [OF a] .
  moreover have "prefix (objectURLs pv1) (objectURLs pv2)"
    using "4.IH"(2) [OF a [symmetric] b] .
  moreover have "pv' = pv2"
    using "4.prems" a b by simp
  ultimately show ?case
    by (auto intro: prefix_order.trans)
qed

lemma generatePreview_prefix:
  "prefix (objectURLs pv) (objectURLs (generatePreview P root fs pv))"
  unfolding generatePreview_def
  by (auto simp: Let_def split: option.splits prod.splits dest: rewriteNode_prefix)

lemma regenerate_prefix:
  "prefix (objectURLs pv) (objectURLs (regenerate P pv gens))"
  unfolding regenerate_def
proof (induction gens arbitrary: pv)
  case Nil
  then show ?case by simp
next
  case (Cons g gens)
  obtain root fs where g: "g = (root, fs)"
    by (cases g)
  have "prefix (objectURLs pv) (objectURLs (generatePreview P root fs pv))"
    by (rule generatePreview_prefix)
  also have "prefix \<dots> (objectURLs (foldl (\<lambda>pv (root, fs). generatePreview P root fs pv)
                                       (generatePreview P root fs pv) gens))"
    by (rule Cons.IH)
  finally show ?case
    by (simp add: g)
qed

subsection \<open>Inline styles\<close>










section \<open>Results\<close>

subsection \<open>NetworkBridge\<close>

text \<open>
  C1. The claim is that the host answers a request from its frame with status 200 and
  the entry's content when the path is a key of the file table and with status 404 when
  it is not, and that a request issued by the shim settles accordingly. On ordinary
  paths the code does so: \<open>/data.json\<close> is answered with 200, the content and the JSON
  content type, \<open>/nope.txt\<close> with 404 and a plain-text body, and in a frame whose
  location resolves the reference the promise is resolved with the content or rejected
  for status 404. It fails in two places. The table is read as a plain object, so a
  path that is no key but names an inherited member is taken as found: for
  \<open>constructor\<close> the content is a function, \<open>postMessage\<close> throws and no answer is
  sent; for \<open>__proto__\<close> the answer is 200 with an empty object. And in the frame the
  component mounts, whose location is \<open>about:srcdoc\<close>, resolving the reference throws
  inside the promise's executor: the promise is rejected at once and no request reaches
  the host, whatever the table holds.
\<close>

theorem fetch_request_for_inherited_name:
  "handleIframeMessage dataHost (requestFor ''/data.json'' ''req_1'')
     = dataHost\<lparr>posted :=
         [\<lparr>type = ''FETCH_RESPONSE'', requestId = ''req_1'', content = Str ''{}'',
           status = 200, headers = [(''Content-Type'', ''application/json'')]\<rparr>]\<rparr>
   \<and> handleIframeMessage dataHost (requestFor ''/nope.txt'' ''req_2'')
     = dataHost\<lparr>posted :=
         [\<lparr>type = ''FETCH_RESPONSE'', requestId = ''req_2'',
           content = Str ''File not found: /nope.txt'', status = 404,
           headers = [(''Content-Type'', ''text/plain'')]\<rparr>]\<rparr>
   \<and> fileSystem dataHost ''constructor'' = None
   \<and> handleIframeMessage dataHost (requestFor ''constructor'' ''req_3'')
     = dataHost\<lparr>uncaught := [DataCloneError]\<rparr>
   \<and> fileSystem dataHost ''__proto__'' = None
   \<and> handleIframeMessage dataHost (requestFor ''__proto__'' ''req_4'')
     = dataHost\<lparr>posted :=
         [\<lparr>type = ''FETCH_RESPONSE'', requestId = ''req_4'', content = EmptyObject,
           status = 200, headers = [(''Content-Type'', ''application/octet-stream'')]\<rparr>]\<rparr>
   \<and> settled (roundTrip pageFrame dataHost ''req_5'' ''data.json'')
     = [(0, Resolved 200 [(''Content-Type'', ''application/json'')] (Str ''{}''))]
   \<and> settled (roundTrip pageFrame dataHost ''req_6'' ''nope.txt'')
     = [(0, Rejected (FetchFailed 404))]
   \<and> outbox (shimFetch srcdocFrame ''req_7'' ''data.json'' (newShim (0::nat))) = []
   \<and> settled (roundTrip srcdocFrame dataHost ''req_7'' ''data.json'')
     = [(0, Rejected (Thrown TypeError))]"
  by (simp add: handleIframeMessage_def getMember_def objectPrototypeNames_def dataHost_def
        requestFor_def getMimeType_def popped_def toLowerCase_def lowerChar_def
        roundTrip_def pageFrame_def srcdocFrame_def urlTable_def shimFetch_def newShim_def
        shimOnMessage_def responseError_def settle_def startsWith_def Let_def)

text \<open>
  C5. The claim is that each pending continuation is settled at most once, that the
  first matching response removes the entry and settles it, resolving for a status in
  \<open>[200, 300)\<close> and rejecting otherwise, and that a response without a pending entry is
  discarded. No promise is settled twice and the message handler calls no continuation
  twice, whatever sequence of \<open>fetch\<close> calls and messages the shim sees. A response with
  status 200 resolves, one with status 404 rejects naming the status, and a second
  response for the same id changes nothing. The claim fails at status 204 (and 205):
  the entry is removed first, then \<open>new Response\<close> throws because a body is given with
  a status that allows none, so neither \<open>resolve\<close> nor \<open>reject\<close> is called; the entry
  is gone, a later response for the id is discarded, and the promise never settles.
\<close>

theorem response_204_removes_without_settling:
  "distinct (map fst (settled (shimRun F (newShim p) events)))
   \<and> distinct (called (shimRun F (newShim p) events))
   \<and> pendingRequests pendingShim ''req_1'' = Some 0
   \<and> shimOnMessage pageFrame pendingShim (responseWith ''req_1'' (Str ''{}'') 200)
     = pendingShim\<lparr>pendingRequests := Map.empty, called := [0],
                   settled := [(0, Resolved 200 [] (Str ''{}''))]\<rparr>
   \<and> shimOnMessage pageFrame pendingShim (responseWith ''req_1'' (Str ''gone'') 404)
     = pendingShim\<lparr>pendingRequests := Map.empty, called := [0],
                   settled := [(0, Rejected (FetchFailed 404))]\<rparr>
   \<and> shimOnMessage pageFrame pendingShim (responseWith ''req_1'' (Str []) 204)
     = pendingShim\<lparr>pendingRequests := Map.empty, thrown := [TypeError]\<rparr>
   \<and> shimOnMessage pageFrame
        (shimOnMessage pageFrame pendingShim (responseWith ''req_1'' (Str []) 204))
        (responseWith ''req_1'' (Str ''{}'') 200)
     = pendingShim\<lparr>pendingRequests := Map.empty, thrown := [TypeError]\<rparr>
   \<and> shimOnMessage pageFrame
        (shimOnMessage pageFrame pendingShim (responseWith ''req_1'' (Str ''{}'') 200))
        (responseWith ''req_1'' (Str ''{}'') 200)
     = shimOnMessage pageFrame pendingShim (responseWith ''req_1'' (Str ''{}'') 200)"
proof -
  have "shimInv (shimRun F (newShim p) events)"
    by (rule shimInv_run) (rule shimInv_new)
  then have "distinct (map fst (settled (shimRun F (newShim p) events)))"
    and "distinct (called (shimRun F (newShim p) events))"
    by (simp_all add: shimInv_def)
  then show ?thesis
    by (simp add: pendingShim_def responseWith_def pageFrame_def urlTable_def shimFetch_def
          newShim_def shimOnMessage_def responseError_def settle_def startsWith_def Let_def)
qed

text \<open>
  C6. The host responder does not react to a message whose source is not the window of
  the frame it owns (or that arrives while it owns no frame): it posts nothing and its
  state is unchanged, whatever the message carries.
\<close>

theorem host_ignores_foreign_source:
  "iframe h \<noteq> Some (source event) \<Longrightarrow> handleIframeMessage h event = h"
  by (simp add: handleIframeMessage_def split: option.splits)

text \<open>
  A well-formed request for an existing file, sent from window 2 to a host that owns
  window 1, gets no answer.
\<close>

theorem host_ignores_foreign_source_witness:
  "(let h = \<lparr>iframe = Some (1::nat), fileSystem = [''/a.json'' \<mapsto> ''{}''], posted = [],
             uncaught = []\<rparr>;
        event = \<lparr>source = 2::nat,
                 data = \<lparr>rtype = ''FETCH_REQUEST'', path = ''/a.json'', rid = ''req_1''\<rparr>\<rparr>
    in iframe h \<noteq> Some (source event) \<and> handleIframeMessage h event = h
       \<and> posted (handleIframeMessage h event) = [])"
  using host_ignores_foreign_source
    [of "\<lparr>iframe = Some (1::nat), fileSystem = [''/a.json'' \<mapsto> ''{}''], posted = [],
          uncaught = []\<rparr>"
        "\<lparr>source = 2::nat,
          data = \<lparr>rtype = ''FETCH_REQUEST'', path = ''/a.json'', rid = ''req_1''\<rparr>\<rparr>"]
  by (simp add: Let_def)

subsection \<open>PathResolver\<close>

text \<open>
  C2. The spec gives three equations for the path resolver. The first two hold on the
  code. The third does not: splitting the directory base \<open>/a/\<close> leaves a trailing empty
  segment, which is popped only when the base is a file, so the reference is pushed after
  it and the result is \<open>/a//x.css\<close>, not \<open>/a/x.css\<close>.
\<close>

theorem resolvePath_spec_equations:
  "resolvePath ''/a/b/index.html'' ''./x.css'' = ''/a/b/x.css''
   \<and> resolvePath ''/a/b/index.html'' ''../x.css'' = ''/a/x.css''
   \<and> resolvePath ''/a/'' ''x.css'' = ''/a//x.css''
   \<and> resolvePath ''/a/'' ''x.css'' \<noteq> ''/a/x.css''"
  by (simp add: resolvePath_def lastChar_def pop_def push_def)

text \<open>
  C10. The resolver does not always return a root-absolute path: from the base
  \<open>/index.html\<close> the reference \<open>../../x.css\<close> pops the leading empty segment of the
  base (the second pop finds the stack empty and does nothing), and the result \<open>x.css\<close>
  does not begin with a slash.
\<close>

theorem resolvePath_escapes_root:
  "startsWith ''/index.html'' ''/''
   \<and> resolvePath ''/index.html'' ''../../x.css'' = ''x.css''
   \<and> \<not> startsWith (resolvePath ''/index.html'' ''../../x.css'') ''/''"
  by (simp add: resolvePath_def lastChar_def pop_def push_def startsWith_def)

subsection \<open>SandboxDocumentBuilder\<close>

text \<open>
  C3. The claim is that a reference beginning with a protocol prefix, with \<open>//\<close> or with
  the embedded-data marker is never looked up in the file table nor rewritten. The
  builder skips references that begin with \<open>http\<close> or \<open>data:\<close> only; the fetch shim also
  skips \<open>//\<close>. A reference beginning with \<open>//\<close> also begins with \<open>/\<close>, so the builder
  takes it as a root-absolute path and looks it up: when the table has a key of that
  name the attribute is rewritten to an object URL, and when it has none the builder
  logs the asset as not found. The shim hands the same reference to the native fetch.
\<close>

theorem builder_rewrites_protocol_relative_reference:
  "generatePreview (samplePlatform [(cdnPage, cdnDoc)] []) (Some ''/'') cdnFiles emptyPreview
     = \<lparr>srcDoc = ''<html><head><script>'' @ fetchOverrideScript
                   @ ''</script></head><body><img src='' @ quoted ''blob:0''
                   @ ''></body></html>'',
        objectURLs = [(''blob:0'', Blob ''PNG'' ''image/png'')],
        console = []\<rparr>
   \<and> generatePreview (samplePlatform [(cdnPage, cdnDoc)] []) (Some ''/'')
        [''/index.html'' \<mapsto> cdnPage] emptyPreview
     = \<lparr>srcDoc = ''<html><head><script>'' @ fetchOverrideScript
                   @ ''</script></head><body><img src='' @ quoted ''//cdn/x.png''
                   @ ''></body></html>'',
        objectURLs = [],
        console = [''Asset not found in file system: //cdn/x.png'']\<rparr>
   \<and> native (shimFetch srcdocFrame ''req_1'' ''//cdn/x.png'' (newShim (0::nat)))
       = [''//cdn/x.png'']
   \<and> outbox (shimFetch srcdocFrame ''req_1'' ''//cdn/x.png'' (newShim (0::nat))) = []"
  by (simp add: generatePreview_def rewriteAsset_def getMember_def objectPrototypeNames_def
        htmlDocument_def cdnPage_def cdnDoc_def cdnFiles_def
        emptyPreview_def samplePlatform_def plainText_def quoted_def
        serializeAttr_def serializeStyle_def cssText_def voidElements_def rawTextElements_def
        hasAttribute_def getAttribute_def startsWith_def getMimeType_def popped_def
        toLowerCase_def lowerChar_def Let_def templ_def
        showNat_0 shimFetch_def newShim_def)

text \<open>
  C4. When the file table has no entry at the preview root's \<open>index.html\<close>, the builder
  returns normally with a placeholder document: for a non-empty root the text names the
  root in which \<open>index.html\<close> was not found; for the empty root the builder has already
  answered that no preview root is selected. In both cases nothing else changes: no
  object URL is created and nothing is logged.
\<close>

theorem generatePreview_missing_index:
  "fs (root @ ''index.html'') = None \<Longrightarrow>
   generatePreview P (Some root) fs pv =
     pv\<lparr>srcDoc :=
          (if root = [] then ''<html><body>No preview root selected.</body></html>''
           else ''<html><body>No index.html found in preview root: '' @ root
             @ ''. Select a folder with an index.html file to preview, or create an index.html.</body></html>'')\<rparr>
   \<and> objectURLs (generatePreview P (Some root) fs pv) = objectURLs pv
   \<and> console (generatePreview P (Some root) fs pv) = console pv"
  by (simp add: generatePreview_def)

text \<open>
  The theorem for the root \<open>/site/\<close> in a table that holds only a README.
\<close>

theorem generatePreview_missing_index_witness:
  "[''/README.md'' \<mapsto> ''# Welcome''] (''/site/'' @ ''index.html'') = None
   \<and> srcDoc (generatePreview (samplePlatform [] []) (Some ''/site/'')
                [''/README.md'' \<mapsto> ''# Welcome''] emptyPreview)
       = ''<html><body>No index.html found in preview root: /site/. Select a folder with an index.html file to preview, or create an index.html.</body></html>''
   \<and> objectURLs (generatePreview (samplePlatform [] []) (Some ''/site/'')
                    [''/README.md'' \<mapsto> ''# Welcome''] emptyPreview) = []"
  using generatePreview_missing_index
    [of "[''/README.md'' \<mapsto> ''# Welcome'']" "''/site/''" "samplePlatform [] []" emptyPreview]
  by (simp add: emptyPreview_def)

text \<open>
  C8, as stated, fails. The claim is that after consecutive regenerations the live
  object URLs are exactly those of the current generation. The builder creates object
  URLs and never revokes one: after two generations of the spec's scenario both
  \<open>blob:0\<close> and \<open>blob:1\<close> are live, while the current document refers to \<open>blob:1\<close>, the
  only one the second generation created.
\<close>

theorem earlier_handles_stay_live:
  "objectURLs (regenerate (samplePlatform [(imagePage, imageDoc)] []) emptyPreview
                 [(Some ''/'', imageFiles), (Some ''/'', imageFiles)])
     = [(''blob:0'', Blob ''PNG'' ''image/png''), (''blob:1'', Blob ''PNG'' ''image/png'')]
   \<and> srcDoc (regenerate (samplePlatform [(imagePage, imageDoc)] []) emptyPreview
                 [(Some ''/'', imageFiles), (Some ''/'', imageFiles)])
     = ''<html><head><script>'' @ fetchOverrideScript
          @ ''</script></head><body><img src='' @ quoted ''blob:1'' @ ''></body></html>''
   \<and> created (samplePlatform [(imagePage, imageDoc)] []) (Some ''/'') imageFiles
        (regenerate (samplePlatform [(imagePage, imageDoc)] []) emptyPreview
           [(Some ''/'', imageFiles)])
     = [(''blob:1'', Blob ''PNG'' ''image/png'')]
   \<and> objectURLs (regenerate (samplePlatform [(imagePage, imageDoc)] []) emptyPreview
                 [(Some ''/'', imageFiles), (Some ''/'', imageFiles)])
     \<noteq> created (samplePlatform [(imagePage, imageDoc)] []) (Some ''/'') imageFiles
        (regenerate (samplePlatform [(imagePage, imageDoc)] []) emptyPreview
           [(Some ''/'', imageFiles)])"
  by (simp add: regenerate_def created_def generatePreview_def
        rewriteAsset_def getMember_def objectPrototypeNames_def htmlDocument_def
        imagePage_def imageDoc_def imageFiles_def emptyPreview_def
        samplePlatform_def plainText_def quoted_def
        serializeAttr_def serializeStyle_def cssText_def voidElements_def rawTextElements_def
        hasAttribute_def getAttribute_def startsWith_def getMimeType_def popped_def
        toLowerCase_def lowerChar_def Let_def templ_def showNat_0 showNat_1 resolvePath_def lastChar_def
        pop_def push_def)

text \<open>
  C8, amended. Through any run of regenerations every object URL that was live before
  is still live after, in the same place of the registry: none is ever released, so
  none is released before a new generation is installed. One generation leaves the
  registry as it found it, followed by the object URLs it created itself.
\<close>

theorem regenerate_never_releases:
  "prefix (objectURLs pv) (objectURLs (regenerate P pv gens))
   \<and> objectURLs (generatePreview P root fs pv) = objectURLs pv @ created P root fs pv"
proof -
  have "prefix (objectURLs pv) (objectURLs (generatePreview P root fs pv))"
    by (rule generatePreview_prefix)
  then have "objectURLs (generatePreview P root fs pv) = objectURLs pv @ created P root fs pv"
    by (auto simp: created_def prefix_def)
  then show ?thesis
    using regenerate_prefix by blast
qed

subsection \<open>EditableOverlaySync\<close>

text \<open>
  C7. The claim is that a commit changes only the inner content of the edited element
  and leaves every other part of the stored document text as it was. The commit stores
  \<open>htmlDoc.body.innerHTML\<close>, the serialised children of the body, in place of the whole
  document: on a root entry with a title in its head, committing \<open>new\<close> to the paragraph
  leaves an entry that is the paragraph alone. The \<open>html\<close>, \<open>head\<close> and \<open>body\<close> markup and
  the title are gone.
\<close>

theorem commit_stores_body_only:
  "handleFocusOut (samplePlatform [(titledPage, titledDoc)] []) (Some ''/'')
      \<lparr>isContentEditable = True, editableId = Some ''x'', rendered = ''new''\<rparr>
      [''/index.html'' \<mapsto> titledPage]
    = Inr [''/index.html'' \<mapsto>
         ''<p data-editable-id='' @ quoted ''x'' @ '' contenteditable='' @ quoted ''true''
           @ ''>new</p>'']"
  by (simp add: handleFocusOut_def updateCodeFromDOM_def editableSelector_def selectorSafe_def
        storeBody_def bodyOf_def htmlDocument_def
        titledPage_def titledDoc_def samplePlatform_def plainText_def quoted_def
        serializeAttr_def serializeStyle_def cssText_def voidElements_def rawTextElements_def
        hasAttribute_def getAttribute_def startsWith_def getMimeType_def popped_def
        toLowerCase_def lowerChar_def Let_def templ_def)



end
